theory Spec2Isabelle
  imports Complex_Main "HOL-Library.Sublist" "HOL-Library.Char_ord" "HOL-Library.List_Lexorder"
begin

section \<open>Values, errors and tables\<close>

text \<open>
  The dashboard \<^verbatim>\<open>actualisation.py\<close> is a script over pandas and geopandas tables.
  A float is a rational (rounding is not modelled), one of the two infinities, or NaN.
  A cell of a table read from CSV is a float or a string.  Strings are byte lists in
  UTF-8, whose lexicographic order is Python's order on \<^verbatim>\<open>str\<close>.
\<close>

datatype pyfloat = Flt rat | PosInf | NegInf | NaN

datatype val = Num pyfloat | Str string

datatype error = KeyError | AttributeError | TypeError | ValueError | OverflowError

definition andthen :: "error + 'a \<Rightarrow> ('a \<Rightarrow> error + 'b) \<Rightarrow> error + 'b" where
  "andthen r f = (case r of Inl e \<Rightarrow> Inl e | Inr x \<Rightarrow> f x)"

text \<open>
  A row carries its index label, its geometry and one cell per column label; a frame is
  the list of column labels (the geometry column apart) and the list of rows.  A table
  without geometry has geometry type \<^typ>\<open>unit\<close>.
\<close>

record 'g row =
  idx :: nat
  geom :: 'g
  cells :: "string \<Rightarrow> val"

record 'r frame =
  columns :: "string list"
  rows :: "'r list"

type_synonym point = "pyfloat \<times> pyfloat"

text \<open>\<^verbatim>\<open>df.get(name)\<close>: the column, or nothing when the frame has no such label.\<close>

definition get :: "('g, 'z) row_scheme frame \<Rightarrow> string \<Rightarrow> val list option" where
  "get df name =
     (if name \<in> set (columns df) then Some (map (\<lambda>r. cells r name) (rows df)) else None)"

subsection \<open>Float arithmetic and conversions\<close>

text \<open>
  Addition is exact on finite values and follows IEEE on infinities and NaN.  The
  rounding and overflow of a float64 sum and the wrap-around of an int64 sum are left
  out: the properties below are about which cells a total adds, and their concrete
  values are small integers.
\<close>

fun fl_add :: "pyfloat \<Rightarrow> pyfloat \<Rightarrow> pyfloat" where
  "fl_add NaN _ = NaN"
| "fl_add _ NaN = NaN"
| "fl_add PosInf NegInf = NaN"
| "fl_add NegInf PosInf = NaN"
| "fl_add PosInf _ = PosInf"
| "fl_add _ PosInf = PosInf"
| "fl_add NegInf _ = NegInf"
| "fl_add _ NegInf = NegInf"
| "fl_add (Flt a) (Flt b) = Flt (a + b)"

text \<open>\<^verbatim>\<open>int(x)\<close> on a float truncates towards zero and raises on infinities and NaN.\<close>

fun py_int_float :: "pyfloat \<Rightarrow> error + int" where
  "py_int_float (Flt q) = Inr (if 0 \<le> q then \<lfloor>q\<rfloor> else \<lceil>q\<rceil>)"
| "py_int_float PosInf = Inl OverflowError"
| "py_int_float NegInf = Inl OverflowError"
| "py_int_float NaN = Inl ValueError"

text \<open>
  \<^verbatim>\<open>pd.to_numeric(..., errors="coerce")\<close> on one cell.  The parser of numeric strings
  belongs to pandas and is a parameter: \<open>parse s\<close> is the float a string denotes, if any.
\<close>

definition to_numeric :: "(string \<Rightarrow> pyfloat option) \<Rightarrow> val \<Rightarrow> pyfloat" where
  "to_numeric parse v =
     (case v of
        Num x \<Rightarrow> x
      | Str s \<Rightarrow> (case parse s of Some x \<Rightarrow> x | None \<Rightarrow> NaN))"

definition fillna0 :: "pyfloat \<Rightarrow> pyfloat" where
  "fillna0 x = (if x = NaN then Flt 0 else x)"

definition float_sum :: "pyfloat list \<Rightarrow> pyfloat" where
  "float_sum xs = foldl fl_add (Flt 0) xs"

section \<open>Users, session state and login\<close>

record user =
  password :: string
  role :: string

definition USERS :: "string \<rightharpoonup> user" where
  "USERS = [''admin'' \<mapsto> \<lparr>password = ''admin2025'', role = ''Admin''\<rparr>,
            ''customer'' \<mapsto> \<lparr>password = ''cust2025'', role = ''Customer''\<rparr>]"

record 'p session =
  auth_ok :: bool
  username :: "string option"
  user_role :: "string option"
  points_gdf :: "'p option"

definition session_init :: "'p session" where
  "session_init = \<lparr>auth_ok = False, username = None, user_role = None, points_gdf = None\<rparr>"

text \<open>
  What the login block does with the script: it lets it run on (\<open>Proceed\<close>), restarts
  it (\<open>Rerun\<close>, \<^verbatim>\<open>st.rerun()\<close>), or ends it at \<^verbatim>\<open>st.stop()\<close>, after the sidebar error
  "Incorrect password" when the flag is set.
\<close>

datatype outcome = Proceed | Rerun | Stop bool

definition login :: "'p session \<Rightarrow> string \<Rightarrow> string \<Rightarrow> bool \<Rightarrow> error + ('p session \<times> outcome)" where
  "login s uname pw clicked =
     (if auth_ok s then Inr (s, Proceed)
      else if clicked then
        (case USERS uname of
           None \<Rightarrow> Inl KeyError
         | Some u \<Rightarrow>
             if pw = password u
             then Inr (s\<lparr>auth_ok := True, username := Some uname, user_role := Some (role u)\<rparr>, Rerun)
             else Inr (s, Stop True))
      else Inr (s, Stop False))"

section \<open>Loading the concession points\<close>

text \<open>
  \<^verbatim>\<open>load_points\<close> receives the table \<^verbatim>\<open>pd.read_csv\<close> produced.  Both coordinate columns
  are coerced, the rows with a NaN coordinate are dropped, and each remaining row gets
  the point \<open>(LON, LAT)\<close> as geometry.  Reading a column the table does not have raises
  \<open>KeyError\<close>.
\<close>

definition coerce_coords :: "(string \<Rightarrow> pyfloat option) \<Rightarrow> unit row \<Rightarrow> unit row" where
  "coerce_coords parse r =
     r\<lparr>cells := (cells r)(''LAT'' := Num (to_numeric parse (cells r ''LAT'')),
                           ''LON'' := Num (to_numeric parse (cells r ''LON'')))\<rparr>"

definition notna :: "val \<Rightarrow> bool" where
  "notna v = (v \<noteq> Num NaN)"

definition as_float :: "val \<Rightarrow> pyfloat" where
  "as_float v = (case v of Num x \<Rightarrow> x | Str s \<Rightarrow> NaN)"

definition with_point :: "unit row \<Rightarrow> point row" where
  "with_point r =
     \<lparr>idx = idx r, geom = (as_float (cells r ''LON''), as_float (cells r ''LAT'')), cells = cells r\<rparr>"

definition load_points :: "(string \<Rightarrow> pyfloat option) \<Rightarrow> unit row frame \<Rightarrow> error + point row frame" where
  "load_points parse df =
     (if ''LAT'' \<notin> set (columns df) then Inl KeyError
      else if ''LON'' \<notin> set (columns df) then Inl KeyError
      else
        let coerced = map (coerce_coords parse) (rows df);
            kept = filter (\<lambda>r. notna (cells r ''LAT'') \<and> notna (cells r ''LON'')) coerced
        in Inr \<lparr>columns = columns df, rows = map with_point kept\<rparr>)"

section \<open>Geometry predicates\<close>

text \<open>
  The geometry engine is a parameter: \<open>loc p g\<close> says where the point \<open>p\<close> lies with
  respect to the geometry \<open>g\<close>.  A point intersects a geometry when it is not in its
  exterior, and is within it when it is in its interior.
\<close>

datatype location = Interior | Boundary | Exterior

definition intersects :: "(point \<Rightarrow> 'g \<Rightarrow> location) \<Rightarrow> point \<Rightarrow> 'g \<Rightarrow> bool" where
  "intersects loc p g = (loc p g \<noteq> Exterior)"

definition within_geom :: "(point \<Rightarrow> 'g \<Rightarrow> location) \<Rightarrow> point \<Rightarrow> 'g \<Rightarrow> bool" where
  "within_geom loc p g = (loc p g = Interior)"

section \<open>The SE polygons and the attribute query\<close>

text \<open>
  A polygon row is a row with the four attributes the attribute query reads.  They are
  strings (\<^verbatim>\<open>load_se_data\<close> adds a missing one as the empty string); \<open>cells\<close> holds the
  other columns of the row.  Each level of the query offers the sorted distinct values of
  its attribute in the subset the level above selected, and keeps the rows that have the
  selected value.
\<close>

record 'g se_row = "'g row" +
  region :: string
  cercle :: string
  commune :: string
  idse_new :: string

definition se_cell :: "'g se_row \<Rightarrow> string \<Rightarrow> val" where
  "se_cell g c =
     (if c = ''region'' then Str (region g)
      else if c = ''cercle'' then Str (cercle g)
      else if c = ''commune'' then Str (commune g)
      else if c = ''idse_new'' then Str (idse_new g)
      else cells g c)"

text \<open>\<^verbatim>\<open>Series.unique()\<close>: the distinct values, in order of first appearance.\<close>

fun unique :: "'a list \<Rightarrow> 'a list" where
  "unique [] = []"
| "unique (x # xs) = x # filter (\<lambda>y. y \<noteq> x) (unique xs)"

definition select_eq :: "('r \<Rightarrow> string) \<Rightarrow> string \<Rightarrow> 'r frame \<Rightarrow> 'r frame" where
  "select_eq field v df = df\<lparr>rows := filter (\<lambda>r. field r = v) (rows df)\<rparr>"

definition candidates :: "('r \<Rightarrow> string) \<Rightarrow> 'r frame \<Rightarrow> string list" where
  "candidates field df = sort (unique (map field (rows df)))"

definition gdf_commune :: "'g se_row frame \<Rightarrow> string \<Rightarrow> string \<Rightarrow> string \<Rightarrow> 'g se_row frame" where
  "gdf_commune gdf reg cer com =
     select_eq commune com (select_eq cercle cer (select_eq region reg gdf))"

definition idse_list :: "'g se_row frame \<Rightarrow> string list" where
  "idse_list gdf_com = [''No filter''] @ candidates idse_new gdf_com"

definition gdf_idse :: "'g se_row frame \<Rightarrow> string \<Rightarrow> 'g se_row frame" where
  "gdf_idse gdf_com idse_selected =
     (if idse_selected = ''No filter'' then gdf_com
      else select_eq idse_new idse_selected gdf_com)"

section \<open>The safe spatial join\<close>

text \<open>
  The loop of \<^verbatim>\<open>safe_sjoin\<close> runs over the labels the copy had at the start and drops,
  from the current table, each label that starts with \<^verbatim>\<open>index_\<close>.  \<^verbatim>\<open>drop\<close> removes
  every column of that label and raises \<open>KeyError\<close> when there is none left.
\<close>

fun drop_index_columns :: "string list \<Rightarrow> string list \<Rightarrow> error + string list" where
  "drop_index_columns [] cur = Inr cur"
| "drop_index_columns (col # cols) cur =
     (if prefix ''index_'' col
      then (if col \<in> set cur then drop_index_columns cols (removeAll col cur) else Inl KeyError)
      else drop_index_columns cols cur)"

text \<open>
  \<^verbatim>\<open>gpd.sjoin(points, polygons, predicate="intersects", how="inner")\<close>, as geopandas 1.x
  performs it.  The index of each table becomes a column first.  pandas calls that
  column \<^verbatim>\<open>index\<close>, or \<^verbatim>\<open>level_0\<close> when the table has a column \<^verbatim>\<open>index\<close> already, and
  raises \<open>ValueError\<close> when that label is taken too; the join then labels it
  \<^verbatim>\<open>index_left\<close> or \<^verbatim>\<open>index_right\<close>, with a final \<^verbatim>\<open>0\<close> in the second case, and raises
  \<open>ValueError\<close> when the label is a column of either table.
\<close>

definition reset_column :: "string list \<Rightarrow> string" where
  "reset_column cols = (if ''index'' \<in> set cols then ''level_0'' else ''index'')"

definition index_label :: "string \<Rightarrow> string list \<Rightarrow> string" where
  "index_label sfx cols =
     (if ''index'' \<in> set cols then ''index_'' @ sfx @ ''0'' else ''index_'' @ sfx)"

definition reset_index :: "string \<Rightarrow> string list \<Rightarrow> string list \<Rightarrow> error + string" where
  "reset_index sfx cols other =
     (if reset_column cols \<in> set cols then Inl ValueError
      else if index_label sfx cols \<in> set cols \<or> index_label sfx cols \<in> set other
      then Inl ValueError
      else Inr (index_label sfx cols))"

text \<open>
  The result has one row for each pair of a point and a polygon that intersect, with the
  point's index and geometry, the point's columns, the column of the polygon's index and
  the polygon's columns; a label both tables have gets the suffix \<^verbatim>\<open>_left\<close> or
  \<^verbatim>\<open>_right\<close>.  The rows are listed point by point; no property below depends on their
  order.
\<close>

definition lsuffix :: "string list \<Rightarrow> string \<Rightarrow> string" where
  "lsuffix others c = (if c \<in> set others then c @ ''_left'' else c)"

definition rsuffix :: "string list \<Rightarrow> string \<Rightarrow> string" where
  "rsuffix others c = (if c \<in> set others then c @ ''_right'' else c)"

definition joined_row ::
  "string list \<Rightarrow> string list \<Rightarrow> string \<Rightarrow> point row \<Rightarrow> 'g se_row \<Rightarrow> point row" where
  "joined_row lcols rcols index_right p g =
     \<lparr>idx = idx p, geom = geom p,
      cells = (\<lambda>k. case map_of (map (\<lambda>c. (lsuffix rcols c, cells p c)) lcols
                                 @ [(index_right, Num (Flt (of_nat (idx g))))]
                                 @ map (\<lambda>c. (rsuffix lcols c, se_cell g c)) rcols) k of
                      Some v \<Rightarrow> v
                    | None \<Rightarrow> Num NaN)\<rparr>"

definition join_frame ::
  "(point \<Rightarrow> 'g \<Rightarrow> location) \<Rightarrow> point row frame \<Rightarrow> 'g se_row frame \<Rightarrow> string \<Rightarrow> point row frame" where
  "join_frame loc left right index_right =
     \<lparr>columns = map (lsuffix (columns right)) (columns left) @ [index_right]
                 @ map (rsuffix (columns left)) (columns right),
      rows = concat (map (\<lambda>p. map (joined_row (columns left) (columns right) index_right p)
                                 (filter (\<lambda>g. intersects loc (geom p) (geom g)) (rows right)))
                         (rows left))\<rparr>"

definition sjoin ::
  "(point \<Rightarrow> 'g \<Rightarrow> location) \<Rightarrow> point row frame \<Rightarrow> 'g se_row frame \<Rightarrow> error + point row frame" where
  "sjoin loc left right =
     andthen (reset_index ''left'' (columns left) (columns right)) (\<lambda>index_left.
     andthen (reset_index ''right'' (columns right) (reset_column (columns left) # columns left))
       (\<lambda>index_right.
     Inr (join_frame loc left right index_right)))"

definition safe_sjoin ::
  "(point \<Rightarrow> 'g \<Rightarrow> location) \<Rightarrow> point row frame \<Rightarrow> 'g se_row frame \<Rightarrow> error + point row frame" where
  "safe_sjoin loc points polygons =
     andthen (drop_index_columns (columns polygons) (columns polygons))
       (\<lambda>cols. sjoin loc points (polygons\<lparr>columns := cols\<rparr>))"

section \<open>Statistics\<close>

text \<open>
  What a statistics block displays: nothing, a notice, or the three totals of the
  markdown list (male, female, both), each converted with \<^verbatim>\<open>int\<close>.  The charts drawn
  beside the totals are not part of the model.
\<close>

datatype report = Nothing_shown | Info_no_points | Info_select_se | Totals int int int

subsection \<open>Polygon-based statistics\<close>

text \<open>
  A drawing is a GeoJSON feature; its geometry may be absent.  The drawings the map
  returned are absent, empty, or a list whose last element is the latest drawing.
\<close>

record 'g feature =
  geometry :: "'g option"

definition pts_poly :: "(point \<Rightarrow> 'g \<Rightarrow> location) \<Rightarrow> point row frame \<Rightarrow> 'g \<Rightarrow> point row frame" where
  "pts_poly loc points poly = points\<lparr>rows := filter (\<lambda>r. within_geom loc (geom r) poly) (rows points)\<rparr>"

text \<open>
  \<^verbatim>\<open>pd.to_numeric(pts.get(name), errors="coerce").fillna(0).sum()\<close>.  Without the column
  \<^verbatim>\<open>get\<close> gives \<^verbatim>\<open>None\<close>, \<^verbatim>\<open>to_numeric\<close> turns it into the float NaN, and a float has no
  \<^verbatim>\<open>fillna\<close>.
\<close>

definition numeric_total :: "(string \<Rightarrow> pyfloat option) \<Rightarrow> val list option \<Rightarrow> error + pyfloat" where
  "numeric_total parse col =
     (case col of
        None \<Rightarrow> Inl AttributeError
      | Some vs \<Rightarrow> Inr (float_sum (map (\<lambda>v. fillna0 (to_numeric parse v)) vs)))"

definition poly_stats :: "(string \<Rightarrow> pyfloat option) \<Rightarrow> point row frame \<Rightarrow> error + report" where
  "poly_stats parse pts =
     (if rows pts = [] then Inr Info_no_points
      else
        andthen (numeric_total parse (get pts ''Masculin'')) (\<lambda>m_poly.
        andthen (numeric_total parse (get pts ''Feminin'')) (\<lambda>f_poly.
        andthen (py_int_float m_poly) (\<lambda>m.
        andthen (py_int_float f_poly) (\<lambda>f.
        andthen (py_int_float (fl_add m_poly f_poly)) (\<lambda>t.
        Inr (Totals m f t)))))))"

definition polygon_query ::
  "(point \<Rightarrow> 'g \<Rightarrow> location) \<Rightarrow> (string \<Rightarrow> pyfloat option) \<Rightarrow> point row frame
     \<Rightarrow> 'g feature list option \<Rightarrow> error + report" where
  "polygon_query loc parse points all_drawings =
     (case all_drawings of
        None \<Rightarrow> Inr Nothing_shown
      | Some ds \<Rightarrow>
          if ds = [] then Inr Nothing_shown
          else (case geometry (last ds) of
                  None \<Rightarrow> Inr Nothing_shown
                | Some poly \<Rightarrow> poly_stats parse (pts_poly loc points poly)))"

subsection \<open>Statistics of the selected SE\<close>

text \<open>
  \<^verbatim>\<open>Series.sum()\<close> puts 0 in place of NaN and adds the cells from the left with Python's
  \<^verbatim>\<open>+\<close>: floats add, strings concatenate, a float and a string raise \<open>TypeError\<close>.
  \<^verbatim>\<open>int\<close> on a string is Python's parser of integer literals, a parameter.
\<close>

fun py_add :: "val \<Rightarrow> val \<Rightarrow> error + val" where
  "py_add (Num a) (Num b) = Inr (Num (fl_add a b))"
| "py_add (Str a) (Str b) = Inr (Str (a @ b))"
| "py_add _ _ = Inl TypeError"

fun add_all :: "val \<Rightarrow> val list \<Rightarrow> error + val" where
  "add_all acc [] = Inr acc"
| "add_all acc (x # xs) = andthen (py_add acc x) (\<lambda>a. add_all a xs)"

definition series_sum :: "val list \<Rightarrow> error + val" where
  "series_sum vs =
     (case map (\<lambda>v. if v = Num NaN then Num (Flt 0) else v) vs of
        [] \<Rightarrow> Inr (Num (Flt 0))
      | x # xs \<Rightarrow> add_all x xs)"

definition py_int :: "(string \<Rightarrow> int option) \<Rightarrow> val \<Rightarrow> error + int" where
  "py_int int_str v =
     (case v of
        Num x \<Rightarrow> py_int_float x
      | Str s \<Rightarrow> (case int_str s of Some n \<Rightarrow> Inr n | None \<Rightarrow> Inl ValueError))"

definition get_or_empty :: "('g, 'z) row_scheme frame \<Rightarrow> string \<Rightarrow> val list" where
  "get_or_empty df name = (case get df name of Some vs \<Rightarrow> vs | None \<Rightarrow> [])"

definition se_stats :: "(string \<Rightarrow> int option) \<Rightarrow> point row frame \<Rightarrow> error + report" where
  "se_stats int_str pts_se =
     andthen (series_sum (get_or_empty pts_se ''Masculin'')) (\<lambda>m_total.
     andthen (series_sum (get_or_empty pts_se ''Feminin'')) (\<lambda>f_total.
     andthen (py_int int_str m_total) (\<lambda>m.
     andthen (py_int int_str f_total) (\<lambda>f.
     andthen (py_add m_total f_total) (\<lambda>total.
     andthen (py_int int_str total) (\<lambda>t.
     Inr (Totals m f t)))))))"

definition se_query ::
  "(point \<Rightarrow> 'g \<Rightarrow> location) \<Rightarrow> (string \<Rightarrow> int option) \<Rightarrow> point row frame
     \<Rightarrow> 'g se_row frame \<Rightarrow> string \<Rightarrow> error + report" where
  "se_query loc int_str points gdf_sel idse_selected =
     (if idse_selected = ''No filter'' then Inr Info_select_se
      else andthen (safe_sjoin loc points gdf_sel) (se_stats int_str))"

subsection \<open>A concrete geometry\<close>

text \<open>
  Axis-parallel rectangles \<open>(x0, y0, x1, y1)\<close> with rational corners, to run the model
  on concrete points: inside, on the edge, outside.
\<close>

type_synonym box = "rat \<times> rat \<times> rat \<times> rat"

fun box_loc :: "point \<Rightarrow> box \<Rightarrow> location" where
  "box_loc (Flt x, Flt y) (x0, y0, x1, y1) =
     (if x0 < x \<and> x < x1 \<and> y0 < y \<and> y < y1 then Interior
      else if x0 \<le> x \<and> x \<le> x1 \<and> y0 \<le> y \<and> y \<le> y1 then Boundary
      else Exterior)"
| "box_loc _ _ = Exterior"

definition pt :: "nat \<Rightarrow> rat \<Rightarrow> rat \<Rightarrow> val \<Rightarrow> val \<Rightarrow> point row" where
  "pt i x y m f =
     \<lparr>idx = i, geom = (Flt x, Flt y),
      cells = (\<lambda>_. Num NaN)(''LON'' := Num (Flt x), ''LAT'' := Num (Flt y),
                              ''Masculin'' := m, ''Feminin'' := f)\<rparr>"

definition se :: "nat \<Rightarrow> string \<Rightarrow> box \<Rightarrow> box se_row" where
  "se i z b =
     \<lparr>idx = i, geom = b, cells = (\<lambda>_. Num NaN),
      region = ''R'', cercle = ''C'', commune = ''K'', idse_new = z\<rparr>"


definition csv_row :: "nat \<Rightarrow> val \<Rightarrow> val \<Rightarrow> unit row" where
  "csv_row i lat lon = \<lparr>idx = i, geom = (), cells = (\<lambda>_. Num NaN)(''LAT'' := lat, ''LON'' := lon)\<rparr>"

definition example_csv :: "unit row frame" where
  "example_csv =
     \<lparr>columns = [''LAT'', ''LON''],
      rows = [csv_row 0 (Num (Flt 12)) (Num (Flt (- 8))),
              csv_row 1 (Str ''abc'') (Num (Flt 1)),
              csv_row 2 (Num NaN) (Num (Flt 1)),
              csv_row 3 (Num PosInf) (Num (Flt 0))]\<rparr>"

definition example_points :: "point row frame" where
  "example_points =
     \<lparr>columns = [''LAT'', ''LON'', ''Masculin'', ''Feminin''],
      rows = [pt 0 1 1 (Num (Flt 5)) (Num (Flt 3)),
              pt 1 2 1 (Num (Flt 0)) (Num (Flt 2)),
              pt 2 5 5 (Num (Flt 7)) (Num (Flt 1))]\<rparr>"

definition points_with_index_right :: "point row frame" where
  "points_with_index_right =
     \<lparr>columns = [''LAT'', ''LON'', ''Masculin'', ''Feminin'', ''index_right''],
      rows = [pt 0 1 1 (Num (Flt 5)) (Num (Flt 3))]\<rparr>"

definition points_without_masculin :: "point row frame" where
  "points_without_masculin =
     \<lparr>columns = [''LAT'', ''LON'', ''Feminin''],
      rows = [pt 0 1 1 (Num NaN) (Num (Flt 3))]\<rparr>"

definition points_with_text :: "point row frame" where
  "points_with_text =
     \<lparr>columns = [''LAT'', ''LON'', ''Masculin'', ''Feminin''],
      rows = [pt 0 1 1 (Num NaN) (Num (Flt 1)),
              pt 1 1 1 (Str ''abc'') (Num (Flt 2))]\<rparr>"

definition example_polygons :: "box se_row frame" where
  "example_polygons =
     \<lparr>columns = [''region'', ''cercle'', ''commune'', ''idse_new'', ''pop_se'', ''pop_se_ct'',
                 ''index_right''],
      rows = [se 0 ''Z2'' (2, 0, 4, 2), se 1 ''Z1'' (0, 0, 2, 2), se 2 ''Z1'' (0, 2, 2, 4)]\<rparr>"

subsection \<open>Notions used to state the properties\<close>

text \<open>A float is finite when it is neither an infinity nor NaN.\<close>

definition is_finite :: "pyfloat \<Rightarrow> bool" where
  "is_finite x = (case x of Flt q \<Rightarrow> True | _ \<Rightarrow> False)"

text \<open>The index labels and points of the table a load returned; none when it raised.\<close>

definition labelled_points :: "error + point row frame \<Rightarrow> (nat \<times> point) list" where
  "labelled_points r = (case r of Inl e \<Rightarrow> [] | Inr out \<Rightarrow> map (\<lambda>q. (idx q, geom q)) (rows out))"

section \<open>Facts about the model\<close>

subsection \<open>Dropping the index columns\<close>

lemma drop_index_columns_filter:
  "distinct (filter (prefix ''index_'') cols) \<Longrightarrow>
   set (filter (prefix ''index_'') cols) \<subseteq> set cur \<Longrightarrow>
   drop_index_columns cols cur
     = Inr (filter (\<lambda>c. c \<notin> set (filter (prefix ''index_'') cols)) cur)"
proof (induction cols arbitrary: cur)
  case Nil
  then show ?case by simp
next
  case (Cons col cols)
  show ?case
  proof (cases "prefix ''index_'' col")
    case True
    with Cons.prems have mem: "col \<in> set cur"
      and d: "distinct (filter (prefix ''index_'') cols)"
      and fresh: "col \<notin> set (filter (prefix ''index_'') cols)"
      and sub: "set (filter (prefix ''index_'') cols) \<subseteq> set cur"
      by auto
    from sub fresh have "set (filter (prefix ''index_'') cols) \<subseteq> set (removeAll col cur)"
      by auto
    from Cons.IH [OF d this] True mem show ?thesis
      by (auto simp: removeAll_filter_not_eq intro: filter_cong)
  next
    case False
    with Cons show ?thesis by simp
  qed
qed

lemma drop_index_columns_unrepeated:
  assumes "distinct (filter (prefix ''index_'') cols)"
  shows "drop_index_columns cols cols = Inr (filter (\<lambda>c. \<not> prefix ''index_'' c) cols)"
proof -
  have "drop_index_columns cols cols
          = Inr (filter (\<lambda>c. c \<notin> set (filter (prefix ''index_'') cols)) cols)"
    using assms by (intro drop_index_columns_filter) auto
  also have "filter (\<lambda>c. c \<notin> set (filter (prefix ''index_'') cols)) cols
          = filter (\<lambda>c. \<not> prefix ''index_'' c) cols"
    by (rule filter_cong) auto
  finally show ?thesis .
qed

text \<open>
  A label that occurs twice is dropped at its first turn and missed at its second: the
  loop raises as soon as a label to drop is repeated or absent.
\<close>

lemma drop_index_columns_KeyError:
  "(\<exists>c \<in> set (filter (prefix ''index_'') cols). c \<notin> set cur)
     \<or> \<not> distinct (filter (prefix ''index_'') cols) \<Longrightarrow>
   drop_index_columns cols cur = Inl KeyError"
proof (induction cols arbitrary: cur)
  case Nil
  then show ?case by simp
next
  case (Cons col cols)
  show ?case
  proof (cases "prefix ''index_'' col \<and> col \<in> set cur")
    case True
    with Cons.prems
    have "(\<exists>c \<in> set (filter (prefix ''index_'') cols). c \<notin> set (removeAll col cur))
            \<or> \<not> distinct (filter (prefix ''index_'') cols)"
      by auto
    from Cons.IH [OF this] True show ?thesis by simp
  next
    case False
    with Cons show ?thesis by (cases "prefix ''index_'' col") auto
  qed
qed

subsection \<open>The join\<close>

lemma safe_sjoin_unrepeated:
  "distinct (filter (prefix ''index_'') (columns polygons)) \<Longrightarrow>
   safe_sjoin loc points polygons
     = sjoin loc points
         (polygons\<lparr>columns := filter (\<lambda>c. \<not> prefix ''index_'' c) (columns polygons)\<rparr>)"
  by (simp add: safe_sjoin_def andthen_def drop_index_columns_unrepeated)

lemma safe_sjoin_repeated:
  "\<not> distinct (filter (prefix ''index_'') (columns polygons)) \<Longrightarrow>
   safe_sjoin loc points polygons = Inl KeyError"
  by (simp add: safe_sjoin_def andthen_def drop_index_columns_KeyError)

lemma prefix_index_label: "prefix ''index_'' (index_label sfx cols)"
  by (simp add: index_label_def)

lemma index_label_not_stripped:
  "index_label sfx cols \<notin> set (filter (\<lambda>c. \<not> prefix ''index_'' c) cols')"
  by (simp add: prefix_index_label)

lemma index_label_not_reset_column: "index_label sfx cols \<noteq> reset_column cols'"
  by (auto simp: index_label_def reset_column_def)

lemma stripped_plain_labels:
  "''index'' \<in> set (filter (\<lambda>c. \<not> prefix ''index_'' c) cols) \<longleftrightarrow> ''index'' \<in> set cols"
  "''level_0'' \<in> set (filter (\<lambda>c. \<not> prefix ''index_'' c) cols) \<longleftrightarrow> ''level_0'' \<in> set cols"
  by simp_all

lemma stripped_labels:
  "reset_column (filter (\<lambda>c. \<not> prefix ''index_'' c) cols) = reset_column cols"
  "index_label sfx (filter (\<lambda>c. \<not> prefix ''index_'' c) cols) = index_label sfx cols"
  by (simp_all add: reset_column_def index_label_def)

lemma reset_column_mem:
  "reset_column cols \<in> set cols \<longleftrightarrow> ''index'' \<in> set cols \<and> ''level_0'' \<in> set cols"
  by (simp add: reset_column_def)

lemma not_prefix_reset_column: "\<not> prefix ''index_'' (reset_column cols)"
  by (simp add: reset_column_def)

lemma reset_index_points:
  "reset_index ''left'' (columns points) (filter (\<lambda>c. \<not> prefix ''index_'' c) cols)
     = (if (''index'' \<in> set (columns points) \<and> ''level_0'' \<in> set (columns points))
           \<or> index_label ''left'' (columns points) \<in> set (columns points)
        then Inl ValueError else Inr (index_label ''left'' (columns points)))"
  by (simp add: reset_index_def reset_column_mem prefix_index_label)

lemma reset_index_polygons:
  "reset_index ''right'' (filter (\<lambda>c. \<not> prefix ''index_'' c) cols)
       (reset_column (columns points) # columns points)
     = (if (''index'' \<in> set cols \<and> ''level_0'' \<in> set cols)
           \<or> index_label ''right'' cols \<in> set (columns points)
        then Inl ValueError else Inr (index_label ''right'' cols))"
  by (simp add: reset_index_def stripped_labels reset_column_mem not_prefix_reset_column
      prefix_index_label index_label_not_reset_column)

text \<open>
  Once the polygon table has no label that starts with \<^verbatim>\<open>index_\<close>, the join returns
  exactly when each table's index can become a column and the two labels of the join
  are not columns of the point table.
\<close>

lemma sjoin_stripped_returns:
  assumes "\<not> (''index'' \<in> set (columns points) \<and> ''level_0'' \<in> set (columns points))"
    and "\<not> (''index'' \<in> set cols \<and> ''level_0'' \<in> set cols)"
    and "index_label ''left'' (columns points) \<notin> set (columns points)"
    and "index_label ''right'' cols \<notin> set (columns points)"
  shows "sjoin loc points (polygons\<lparr>columns := filter (\<lambda>c. \<not> prefix ''index_'' c) cols\<rparr>)
           = Inr (join_frame loc points
                    (polygons\<lparr>columns := filter (\<lambda>c. \<not> prefix ''index_'' c) cols\<rparr>)
                    (index_label ''right'' cols))"
  using assms
  by (simp add: sjoin_def reset_index_points reset_index_polygons andthen_def)

lemma sjoin_stripped_raises:
  assumes "(''index'' \<in> set (columns points) \<and> ''level_0'' \<in> set (columns points))
           \<or> (''index'' \<in> set cols \<and> ''level_0'' \<in> set cols)
           \<or> index_label ''left'' (columns points) \<in> set (columns points)
           \<or> index_label ''right'' cols \<in> set (columns points)"
  shows "sjoin loc points (polygons\<lparr>columns := filter (\<lambda>c. \<not> prefix ''index_'' c) cols\<rparr>)
           = Inl ValueError"
  using assms
  by (auto simp: sjoin_def reset_index_points reset_index_polygons andthen_def)

lemma safe_sjoin_returns:
  assumes "distinct (filter (prefix ''index_'') (columns polygons))"
    and "\<not> (''index'' \<in> set (columns points) \<and> ''level_0'' \<in> set (columns points))"
    and "\<not> (''index'' \<in> set (columns polygons) \<and> ''level_0'' \<in> set (columns polygons))"
    and "index_label ''left'' (columns points) \<notin> set (columns points)"
    and "index_label ''right'' (columns polygons) \<notin> set (columns points)"
  shows "safe_sjoin loc points polygons
           = Inr (join_frame loc points
                    (polygons\<lparr>columns := filter (\<lambda>c. \<not> prefix ''index_'' c) (columns polygons)\<rparr>)
                    (index_label ''right'' (columns polygons)))"
  using assms(1) sjoin_stripped_returns [OF assms(2-5), of loc polygons]
  by (simp add: safe_sjoin_unrepeated)

lemma safe_sjoin_raises:
  assumes "distinct (filter (prefix ''index_'') (columns polygons))"
    and "(''index'' \<in> set (columns points) \<and> ''level_0'' \<in> set (columns points))
           \<or> (''index'' \<in> set (columns polygons) \<and> ''level_0'' \<in> set (columns polygons))
           \<or> index_label ''left'' (columns points) \<in> set (columns points)
           \<or> index_label ''right'' (columns polygons) \<in> set (columns points)"
  shows "safe_sjoin loc points polygons = Inl ValueError"
  using assms(1) sjoin_stripped_raises [OF assms(2), of loc polygons]
  by (simp add: safe_sjoin_unrepeated)

lemma sjoin_Inr:
  "sjoin loc left right = Inr joined \<Longrightarrow> \<exists>index_right. joined = join_frame loc left right index_right"
  by (auto simp: sjoin_def andthen_def split: sum.splits)

lemma safe_sjoin_Inr:
  "safe_sjoin loc points polygons = Inr joined \<Longrightarrow>
   \<exists>cols index_right. joined = join_frame loc points (polygons\<lparr>columns := cols\<rparr>) index_right"
proof -
  assume "safe_sjoin loc points polygons = Inr joined"
  then obtain cols where "sjoin loc points (polygons\<lparr>columns := cols\<rparr>) = Inr joined"
    by (auto simp: safe_sjoin_def andthen_def split: sum.splits)
  from sjoin_Inr [OF this] show ?thesis by blast
qed

lemma set_rows_join_frame:
  "set (rows (join_frame loc points polygons index_right))
     = {joined_row (columns points) (columns polygons) index_right p g | p g.
          p \<in> set (rows points) \<and> g \<in> set (rows polygons) \<and> loc (geom p) (geom g) \<noteq> Exterior}"
  by (auto simp: join_frame_def intersects_def)

lemma joined_row_sel [simp]:
  "idx (joined_row lcols rcols index_right p g) = idx p"
  "geom (joined_row lcols rcols index_right p g) = geom p"
  by (simp_all add: joined_row_def)

lemma join_frame_selects:
  "(\<exists>j \<in> set (rows (join_frame loc points polygons index_right)). idx j = i \<and> geom j = q)
     \<longleftrightarrow> (\<exists>p \<in> set (rows points). idx p = i \<and> geom p = q
            \<and> (\<exists>g \<in> set (rows polygons). loc q (geom g) \<noteq> Exterior))"
  (is "?L \<longleftrightarrow> ?R")
proof
  assume ?L
  then obtain p g where "p \<in> set (rows points)" "g \<in> set (rows polygons)"
    "loc (geom p) (geom g) \<noteq> Exterior" "idx p = i" "geom p = q"
    unfolding set_rows_join_frame by force
  then show ?R by blast
next
  assume ?R
  then obtain p g where pg: "p \<in> set (rows points)" "g \<in> set (rows polygons)"
    "loc (geom p) (geom g) \<noteq> Exterior" "idx p = i" "geom p = q"
    by blast
  then have "joined_row (columns points) (columns polygons) index_right p g
               \<in> set (rows (join_frame loc points polygons index_right))"
    unfolding set_rows_join_frame by blast
  with pg(4,5) show ?L
    by (intro bexI [of _ "joined_row (columns points) (columns polygons) index_right p g"]) simp_all
qed

subsection \<open>Loading\<close>

lemma rows_load_points:
  "''LAT'' \<in> set (columns df) \<Longrightarrow> ''LON'' \<in> set (columns df) \<Longrightarrow>
   load_points parse df =
     Inr \<lparr>columns = columns df,
          rows = map (\<lambda>r. with_point (coerce_coords parse r))
                   (filter (\<lambda>r. to_numeric parse (cells r ''LAT'') \<noteq> NaN
                              \<and> to_numeric parse (cells r ''LON'') \<noteq> NaN) (rows df))\<rparr>"
  by (simp add: load_points_def Let_def filter_map o_def coerce_coords_def notna_def)

lemma with_point_coerce [simp]:
  "idx (with_point (coerce_coords parse r)) = idx r"
  "geom (with_point (coerce_coords parse r))
     = (to_numeric parse (cells r ''LON''), to_numeric parse (cells r ''LAT''))"
  by (simp_all add: with_point_def coerce_coords_def as_float_def)

subsection \<open>Candidate lists\<close>

lemma set_unique [simp]: "set (unique xs) = set xs"
  by (induction xs) auto

lemma distinct_unique [simp]: "distinct (unique xs)"
  by (induction xs) auto

lemma candidates_sorted_list_of_set:
  "candidates field df = sorted_list_of_set (field ` set (rows df))"
proof -
  let ?xs = "unique (map field (rows df))"
  have "sorted_list_of_set (set ?xs) = sort (remdups ?xs)"
    by (rule sorted_list_of_set_sort_remdups)
  also have "remdups ?xs = ?xs"
    by (simp add: distinct_remdups_id)
  finally show ?thesis by (simp add: candidates_def)
qed

lemma rows_gdf_commune:
  "rows (gdf_commune gdf reg cer com)
     = filter (\<lambda>r. region r = reg \<and> cercle r = cer \<and> commune r = com) (rows gdf)"
  by (auto simp: gdf_commune_def select_eq_def intro: filter_cong)

subsection \<open>Sums over no rows\<close>

lemma series_sum_Nil: "series_sum [] = Inr (Num (Flt 0))"
  by (simp add: series_sum_def)

lemma se_stats_no_rows: "rows pts = [] \<Longrightarrow> se_stats int_str pts = Inr (Totals 0 0 0)"
  by (simp add: se_stats_def get_or_empty_def get_def series_sum_Nil andthen_def py_int_def)

lemma poly_stats_no_rows: "rows pts = [] \<Longrightarrow> poly_stats parse pts = Inr Info_no_points"
  by (simp add: poly_stats_def)

section \<open>The spatial predicates\<close>

text \<open>
  C1.  When the safe join returns, its rows are the points (index label and geometry)
  that intersect some polygon of the subset: those not in the exterior of it, so those
  on its boundary too.  The drawn-polygon path keeps the points in the interior of the
  drawn polygon.  A point on the boundary of a polygon is therefore a row of the join
  with that polygon and not a row of the drawn-polygon selection with it.
\<close>

theorem spatial_predicates_differ:
  assumes "safe_sjoin loc points polygons = Inr joined"
  shows "((\<exists>j \<in> set (rows joined). idx j = i \<and> geom j = q)
            \<longleftrightarrow> (\<exists>p \<in> set (rows points). idx p = i \<and> geom p = q
                   \<and> (\<exists>g \<in> set (rows polygons). loc q (geom g) \<noteq> Exterior)))
         \<and> rows (pts_poly loc points poly)
             = filter (\<lambda>p. loc (geom p) poly = Interior) (rows points)
         \<and> (\<forall>p \<in> set (rows points). \<forall>g \<in> set (rows polygons).
               loc (geom p) (geom g) = Boundary \<longrightarrow>
                 (\<exists>j \<in> set (rows joined). idx j = idx p \<and> geom j = geom p)
                 \<and> p \<notin> set (rows (pts_poly loc points (geom g))))"
proof -
  from assms obtain cols index_right
    where j: "joined = join_frame loc points (polygons\<lparr>columns := cols\<rparr>) index_right"
    using safe_sjoin_Inr by blast
  have sel: "(\<exists>j \<in> set (rows joined). idx j = i' \<and> geom j = q')
            \<longleftrightarrow> (\<exists>p \<in> set (rows points). idx p = i' \<and> geom p = q'
                   \<and> (\<exists>g \<in> set (rows polygons). loc q' (geom g) \<noteq> Exterior))" for i' q'
    unfolding j
    using join_frame_selects [of loc points "polygons\<lparr>columns := cols\<rparr>" index_right i' q']
    by simp
  have w: "rows (pts_poly loc points poly') = filter (\<lambda>p. loc (geom p) poly' = Interior) (rows points)"
    for poly'
    by (simp add: pts_poly_def within_geom_def)
  have b: "(\<exists>j \<in> set (rows joined). idx j = idx p \<and> geom j = geom p)
           \<and> p \<notin> set (rows (pts_poly loc points (geom g)))"
    if "p \<in> set (rows points)" "g \<in> set (rows polygons)" "loc (geom p) (geom g) = Boundary"
    for p g
  proof
    have "loc (geom p) (geom g) \<noteq> Exterior" using that(3) by simp
    with that(1,2) show "\<exists>j \<in> set (rows joined). idx j = idx p \<and> geom j = geom p"
      unfolding sel by blast
    show "p \<notin> set (rows (pts_poly loc points (geom g)))"
      unfolding w using that(3) by simp
  qed
  from sel w b show ?thesis by blast
qed

theorem spatial_predicates_differ_witness:
  "safe_sjoin box_loc example_points (gdf_idse example_polygons ''Z1'')
     = Inr (join_frame box_loc example_points
             ((gdf_idse example_polygons ''Z1'')
                \<lparr>columns := [''region'', ''cercle'', ''commune'', ''idse_new'', ''pop_se'',
                             ''pop_se_ct'']\<rparr>) ''index_right'')
   \<and> box_loc (Flt 2, Flt 1) (0, 0, 2, 2) = Boundary
   \<and> (\<exists>j \<in> set (rows (join_frame box_loc example_points
             ((gdf_idse example_polygons ''Z1'')
                \<lparr>columns := [''region'', ''cercle'', ''commune'', ''idse_new'', ''pop_se'',
                             ''pop_se_ct'']\<rparr>) ''index_right'')). idx j = 1 \<and> geom j = (Flt 2, Flt 1))
   \<and> map idx (rows (pts_poly box_loc example_points (0, 0, 2, 2))) = [0]"
proof -
  let ?G = "gdf_idse example_polygons ''Z1''"
  let ?J = "join_frame box_loc example_points
             (?G\<lparr>columns := [''region'', ''cercle'', ''commune'', ''idse_new'', ''pop_se'',
                             ''pop_se_ct'']\<rparr>) ''index_right''"
  have h: "safe_sjoin box_loc example_points ?G = Inr ?J"
    by (simp add: safe_sjoin_def sjoin_def reset_index_def reset_column_def index_label_def
        andthen_def gdf_idse_def select_eq_def example_polygons_def example_points_def)
  have p: "pt 1 2 1 (Num (Flt 0)) (Num (Flt 2)) \<in> set (rows example_points)"
    by (simp add: example_points_def)
  have g: "se 1 ''Z1'' (0, 0, 2, 2) \<in> set (rows ?G)"
    by (simp add: gdf_idse_def select_eq_def example_polygons_def se_def)
  have b: "box_loc (geom (pt 1 2 1 (Num (Flt 0)) (Num (Flt 2)))) (geom (se 1 ''Z1'' (0, 0, 2, 2)))
             = Boundary"
    by (simp add: pt_def se_def)
  from spatial_predicates_differ [OF h, of 1 "(Flt 2, Flt 1)" "(0, 0, 2, 2)"]
  have "\<forall>p \<in> set (rows example_points). \<forall>g \<in> set (rows ?G).
          box_loc (geom p) (geom g) = Boundary \<longrightarrow>
            (\<exists>j \<in> set (rows ?J). idx j = idx p \<and> geom j = geom p)
            \<and> p \<notin> set (rows (pts_poly box_loc example_points (geom g)))"
    by blast
  with p g b have "\<exists>j \<in> set (rows ?J). idx j = idx (pt 1 2 1 (Num (Flt 0)) (Num (Flt 2)))
      \<and> geom j = geom (pt 1 2 1 (Num (Flt 0)) (Num (Flt 2)))"
    by blast
  then have "\<exists>j \<in> set (rows ?J). idx j = 1 \<and> geom j = (Flt 2, Flt 1)"
    by (simp add: pt_def)
  moreover have "map idx (rows (pts_poly box_loc example_points (0, 0, 2, 2))) = [0]"
    by (simp add: pts_poly_def within_geom_def example_points_def pt_def)
  moreover have "box_loc (Flt 2, Flt 1) (0, 0, 2, 2) = Boundary" by simp
  ultimately show ?thesis using h by blast
qed

section \<open>Loading the points\<close>

text \<open>
  The statement "a row survives exactly when both coordinates parse as finite numbers"
  fails on an infinite coordinate: the row with latitude \<open>inf\<close> is loaded, at the point
  \<open>(0, inf)\<close>.
\<close>

theorem load_points_infinite_counterexample:
  "labelled_points (load_points (\<lambda>s. None)
      \<lparr>columns = [''LAT'', ''LON''], rows = [csv_row 0 (Num PosInf) (Num (Flt 0))]\<rparr>)
     = [(0, (Flt 0, PosInf))]
   \<and> \<not> is_finite (to_numeric (\<lambda>s. None) (cells (csv_row 0 (Num PosInf) (Num (Flt 0))) ''LAT''))"
  by (simp add: load_points_def labelled_points_def csv_row_def coerce_coords_def notna_def
      with_point_def as_float_def to_numeric_def is_finite_def)

text \<open>
  C2, amended.  On a table that has the columns LAT and LON (with distinct index labels,
  as \<^verbatim>\<open>read_csv\<close> gives), \<^verbatim>\<open>load_points\<close> returns, raising nothing; a row of the table is in
  the result exactly when both its LAT and its LON coerce to a float other than NaN,
  finite or infinite; and each row of the result has the point \<open>(LON, LAT)\<close> of the row
  of its label.
\<close>

theorem load_points_keeps_parsed_rows:
  assumes "''LAT'' \<in> set (columns df)" and "''LON'' \<in> set (columns df)"
    and "distinct (map idx (rows df))"
  shows "\<exists>out. load_points parse df = Inr out
           \<and> (\<forall>r \<in> set (rows df).
                 (\<exists>q \<in> set (rows out). idx q = idx r)
                   \<longleftrightarrow> (to_numeric parse (cells r ''LAT'') \<noteq> NaN
                        \<and> to_numeric parse (cells r ''LON'') \<noteq> NaN))
           \<and> (\<forall>q \<in> set (rows out). \<exists>r \<in> set (rows df). idx q = idx r
                 \<and> geom q = (to_numeric parse (cells r ''LON''), to_numeric parse (cells r ''LAT'')))"
proof -
  let ?keep = "\<lambda>r. to_numeric parse (cells r ''LAT'') \<noteq> NaN \<and> to_numeric parse (cells r ''LON'') \<noteq> NaN"
  let ?out = "\<lparr>columns = columns df,
          rows = map (\<lambda>r. with_point (coerce_coords parse r)) (filter ?keep (rows df))\<rparr>"
  have eq: "load_points parse df = Inr ?out"
    using assms(1,2) by (rule rows_load_points)
  have inj: "r = r'" if "r \<in> set (rows df)" "r' \<in> set (rows df)" "idx r = idx r'" for r r'
    using assms(3) that by (meson distinct_map inj_onD)
  have a: "(\<exists>q \<in> set (rows ?out). idx q = idx r) \<longleftrightarrow> ?keep r" if r: "r \<in> set (rows df)" for r
  proof
    assume "\<exists>q \<in> set (rows ?out). idx q = idx r"
    then obtain r' where "r' \<in> set (rows df)" "?keep r'" "idx r' = idx r"
      by auto
    with inj r show "?keep r" by blast
  next
    assume "?keep r"
    with r have "with_point (coerce_coords parse r) \<in> set (rows ?out)" by simp
    then show "\<exists>q \<in> set (rows ?out). idx q = idx r"
      by (rule bexI [rotated]) simp
  qed
  have b: "\<exists>r \<in> set (rows df). idx q = idx r
                 \<and> geom q = (to_numeric parse (cells r ''LON''), to_numeric parse (cells r ''LAT''))"
    if "q \<in> set (rows ?out)" for q
    using that by auto
  from eq a b show ?thesis by blast
qed

theorem load_points_keeps_parsed_rows_witness:
  "''LAT'' \<in> set (columns example_csv) \<and> ''LON'' \<in> set (columns example_csv)
   \<and> distinct (map idx (rows example_csv))
   \<and> labelled_points (load_points (\<lambda>s. None) example_csv)
       = [(0, (Flt (- 8), Flt 12)), (3, (Flt 0, PosInf))]"
  using load_points_keeps_parsed_rows [of example_csv "\<lambda>s. None"]
  by (simp add: load_points_def labelled_points_def example_csv_def csv_row_def coerce_coords_def
      notna_def with_point_def as_float_def to_numeric_def)

section \<open>The attribute query\<close>

text \<open>
  The list offered by the SE dropdown is not the sorted list of the distinct zone ids:
  it starts with the entry "No filter".
\<close>

theorem idse_list_counterexample:
  "idse_list (gdf_commune example_polygons ''R'' ''C'' ''K'') = [''No filter'', ''Z1'', ''Z2'']
   \<and> sort (remdups (map idse_new (rows (gdf_commune example_polygons ''R'' ''C'' ''K''))))
       = [''Z1'', ''Z2'']"
  by (simp add: idse_list_def candidates_def gdf_commune_def select_eq_def example_polygons_def se_def)

text \<open>
  C3, amended.  For the selected region, cercle and commune, the list offered by the SE
  dropdown is the entry "No filter" followed by the distinct \<open>idse_new\<close> values of the
  commune's polygons, in ascending lexical order.
\<close>

theorem idse_list_no_filter_then_sorted:
  "idse_list (gdf_commune gdf reg cer com)
     = ''No filter'' #
       sorted_list_of_set
         {idse_new r | r. r \<in> set (rows gdf) \<and> region r = reg \<and> cercle r = cer \<and> commune r = com}"
proof -
  have "idse_new ` set (rows (gdf_commune gdf reg cer com))
          = {idse_new r | r. r \<in> set (rows gdf) \<and> region r = reg \<and> cercle r = cer \<and> commune r = com}"
    unfolding rows_gdf_commune by auto
  then show ?thesis
    by (simp add: idse_list_def candidates_sorted_list_of_set)
qed

theorem idse_list_no_filter_then_sorted_witness:
  "idse_list (gdf_commune example_polygons ''R'' ''C'' ''K'') = [''No filter'', ''Z1'', ''Z2'']
   \<and> sorted_list_of_set
         {idse_new r | r. r \<in> set (rows example_polygons) \<and> region r = ''R'' \<and> cercle r = ''C''
            \<and> commune r = ''K''} = [''Z1'', ''Z2'']"
  using idse_list_no_filter_then_sorted [of example_polygons "''R''" "''C''" "''K''"]
  by (simp add: idse_list_def candidates_def gdf_commune_def select_eq_def example_polygons_def se_def)

text \<open>
  C4.  With "No filter" selected the SE-level subset is the commune's subset itself; with
  any other selection it is the commune's subset restricted to the rows whose \<open>idse_new\<close>
  is the selected id.
\<close>

theorem gdf_idse_no_filter:
  "gdf_idse gdf_com ''No filter'' = gdf_com
   \<and> (idse_selected \<noteq> ''No filter'' \<longrightarrow>
        gdf_idse gdf_com idse_selected
          = gdf_com\<lparr>rows := filter (\<lambda>r. idse_new r = idse_selected) (rows gdf_com)\<rparr>)"
  by (simp add: gdf_idse_def select_eq_def)

theorem gdf_idse_no_filter_witness:
  "gdf_idse example_polygons ''No filter'' = example_polygons
   \<and> ''Z1'' \<noteq> ''No filter''
   \<and> map idx (rows (gdf_idse example_polygons ''Z1'')) = [1, 2]"
  using gdf_idse_no_filter [of example_polygons "''Z1''"]
  by (simp add: example_polygons_def se_def)

section \<open>The safe join\<close>

text \<open>
  Joining against a polygon table with no rows raises when the point table has a column
  \<^verbatim>\<open>index_right\<close>: only the polygon table is cleaned of such columns.
\<close>

theorem safe_sjoin_empty_polygons_counterexample:
  "rows (example_polygons\<lparr>rows := []\<rparr>) = []
   \<and> safe_sjoin box_loc points_with_index_right (example_polygons\<lparr>rows := []\<rparr>) = Inl ValueError"
  by (simp add: safe_sjoin_def sjoin_def reset_index_def reset_column_def index_label_def
      andthen_def example_polygons_def points_with_index_right_def)

text \<open>
  C7, amended.  Joining a point table against a polygon table with no rows returns a
  table with no rows, and does not raise, provided that no label that starts with
  \<^verbatim>\<open>index_\<close> occurs twice in the polygon table, that neither table has both a column
  \<^verbatim>\<open>index\<close> and a column \<^verbatim>\<open>level_0\<close>, and that the two labels the join gives the indexes
  (\<^verbatim>\<open>index_left\<close> and \<^verbatim>\<open>index_right\<close>; with a final \<^verbatim>\<open>0\<close> for a table that has a column
  \<^verbatim>\<open>index\<close>) are not columns of the point table.
\<close>

theorem safe_sjoin_empty_polygons:
  assumes "rows polygons = []"
    and "distinct (filter (prefix ''index_'') (columns polygons))"
    and "\<not> (''index'' \<in> set (columns points) \<and> ''level_0'' \<in> set (columns points))"
    and "\<not> (''index'' \<in> set (columns polygons) \<and> ''level_0'' \<in> set (columns polygons))"
    and "index_label ''left'' (columns points) \<notin> set (columns points)"
    and "index_label ''right'' (columns polygons) \<notin> set (columns points)"
  shows "\<exists>joined. safe_sjoin loc points polygons = Inr joined \<and> rows joined = []"
proof -
  let ?joined = "join_frame loc points
      (polygons\<lparr>columns := filter (\<lambda>c. \<not> prefix ''index_'' c) (columns polygons)\<rparr>)
      (index_label ''right'' (columns polygons))"
  have "safe_sjoin loc points polygons = Inr ?joined"
    using assms(2-6) by (rule safe_sjoin_returns)
  moreover have "rows ?joined = []"
    using assms(1) by (simp add: join_frame_def)
  ultimately show ?thesis by blast
qed

theorem safe_sjoin_empty_polygons_witness:
  "rows (example_polygons\<lparr>rows := []\<rparr>) = []
   \<and> distinct (filter (prefix ''index_'') (columns (example_polygons\<lparr>rows := []\<rparr>)))
   \<and> ''index'' \<notin> set (columns example_points)
   \<and> ''index'' \<notin> set (columns (example_polygons\<lparr>rows := []\<rparr>))
   \<and> index_label ''left'' (columns example_points) = ''index_left''
   \<and> index_label ''right'' (columns (example_polygons\<lparr>rows := []\<rparr>)) = ''index_right''
   \<and> ''index_left'' \<notin> set (columns example_points)
   \<and> ''index_right'' \<notin> set (columns example_points)
   \<and> (\<exists>joined. safe_sjoin box_loc example_points (example_polygons\<lparr>rows := []\<rparr>) = Inr joined
          \<and> rows joined = [])"
  using safe_sjoin_empty_polygons [of "example_polygons\<lparr>rows := []\<rparr>" example_points box_loc]
  by (simp add: example_polygons_def example_points_def index_label_def)

text \<open>
  The removal does not make every re-join safe.  The result of a join has the column
  \<^verbatim>\<open>index_right\<close>; joined again as the point table it raises, since only the polygon
  table is cleaned.  And a polygon table in which such a label occurs twice makes the
  removal itself raise.
\<close>

theorem rejoin_counterexample:
  "map_sum id columns (safe_sjoin box_loc example_points example_polygons)
     = Inr [''LAT'', ''LON'', ''Masculin'', ''Feminin'', ''index_right'',
            ''region'', ''cercle'', ''commune'', ''idse_new'', ''pop_se'', ''pop_se_ct'']
   \<and> andthen (safe_sjoin box_loc example_points example_polygons)
        (\<lambda>joined. safe_sjoin box_loc joined example_polygons) = Inl ValueError
   \<and> safe_sjoin box_loc example_points
        (example_polygons\<lparr>columns := [''index_right'', ''idse_new'', ''index_right'']\<rparr>)
       = Inl KeyError"
proof -
  have first: "safe_sjoin box_loc example_points example_polygons
      = Inr (join_frame box_loc example_points
              (example_polygons\<lparr>columns := [''region'', ''cercle'', ''commune'', ''idse_new'',
                                             ''pop_se'', ''pop_se_ct'']\<rparr>) ''index_right'')"
    by (simp add: safe_sjoin_def sjoin_def reset_index_def reset_column_def index_label_def
        andthen_def example_polygons_def example_points_def)
  have again: "safe_sjoin box_loc
        (join_frame box_loc example_points
              (example_polygons\<lparr>columns := [''region'', ''cercle'', ''commune'', ''idse_new'',
                                             ''pop_se'', ''pop_se_ct'']\<rparr>) ''index_right'')
        example_polygons = Inl ValueError"
    by (simp add: safe_sjoin_def sjoin_def reset_index_def reset_column_def index_label_def
        andthen_def join_frame_def lsuffix_def rsuffix_def example_polygons_def example_points_def)
  have twice: "safe_sjoin box_loc example_points
        (example_polygons\<lparr>columns := [''index_right'', ''idse_new'', ''index_right'']\<rparr>)
       = Inl KeyError"
    by (simp add: safe_sjoin_def andthen_def)
  have cols: "map_sum id columns (safe_sjoin box_loc example_points example_polygons)
     = Inr [''LAT'', ''LON'', ''Masculin'', ''Feminin'', ''index_right'',
            ''region'', ''cercle'', ''commune'', ''idse_new'', ''pop_se'', ''pop_se_ct'']"
    unfolding first
    by (simp add: join_frame_def lsuffix_def rsuffix_def example_points_def)
  from cols again twice show ?thesis
    unfolding first by (simp add: andthen_def)
qed

text \<open>
  C8, amended.  On a polygon table in which no label that starts with \<^verbatim>\<open>index_\<close> occurs
  twice, the safe join is the join of the points with the polygon table less every
  column whose label starts with \<^verbatim>\<open>index_\<close>, the other columns staying in their order.
  So the index columns a polygon table kept from earlier joins do not make the join
  fail: it returns, with the point's columns, the column of the polygon's index and
  the polygon's remaining columns, whenever neither table has both a column \<^verbatim>\<open>index\<close>
  and a column \<^verbatim>\<open>level_0\<close> and the two labels the join gives the indexes are not columns
  of the point table.
\<close>

theorem safe_sjoin_strips_index_columns:
  assumes "distinct (filter (prefix ''index_'') (columns polygons))"
  shows "safe_sjoin loc points polygons
           = sjoin loc points
               (polygons\<lparr>columns := filter (\<lambda>c. \<not> prefix ''index_'' c) (columns polygons)\<rparr>)
         \<and> (\<not> (''index'' \<in> set (columns points) \<and> ''level_0'' \<in> set (columns points))
            \<and> \<not> (''index'' \<in> set (columns polygons) \<and> ''level_0'' \<in> set (columns polygons))
            \<and> index_label ''left'' (columns points) \<notin> set (columns points)
            \<and> index_label ''right'' (columns polygons) \<notin> set (columns points)
            \<longrightarrow> (\<exists>joined. safe_sjoin loc points polygons = Inr joined
                   \<and> columns joined
                       = map (lsuffix (filter (\<lambda>c. \<not> prefix ''index_'' c) (columns polygons)))
                           (columns points)
                         @ [index_label ''right'' (columns polygons)]
                         @ map (rsuffix (columns points))
                             (filter (\<lambda>c. \<not> prefix ''index_'' c) (columns polygons))))"
proof -
  have strip: "safe_sjoin loc points polygons
           = sjoin loc points
               (polygons\<lparr>columns := filter (\<lambda>c. \<not> prefix ''index_'' c) (columns polygons)\<rparr>)"
    using assms by (rule safe_sjoin_unrepeated)
  have ret: "\<exists>joined. safe_sjoin loc points polygons = Inr joined
                   \<and> columns joined
                       = map (lsuffix (filter (\<lambda>c. \<not> prefix ''index_'' c) (columns polygons)))
                           (columns points)
                         @ [index_label ''right'' (columns polygons)]
                         @ map (rsuffix (columns points))
                             (filter (\<lambda>c. \<not> prefix ''index_'' c) (columns polygons))"
    if "\<not> (''index'' \<in> set (columns points) \<and> ''level_0'' \<in> set (columns points))"
      and "\<not> (''index'' \<in> set (columns polygons) \<and> ''level_0'' \<in> set (columns polygons))"
      and "index_label ''left'' (columns points) \<notin> set (columns points)"
      and "index_label ''right'' (columns polygons) \<notin> set (columns points)"
    using safe_sjoin_returns [OF assms that, of loc] by (simp add: join_frame_def)
  from strip ret show ?thesis by blast
qed

theorem safe_sjoin_strips_index_columns_witness:
  "distinct (filter (prefix ''index_'') (columns example_polygons))
   \<and> ''index_right'' \<in> set (columns example_polygons)
   \<and> ''index'' \<notin> set (columns example_points)
   \<and> ''index'' \<notin> set (columns example_polygons)
   \<and> index_label ''left'' (columns example_points) \<notin> set (columns example_points)
   \<and> index_label ''right'' (columns example_polygons) \<notin> set (columns example_points)
   \<and> (\<exists>joined. safe_sjoin box_loc example_points example_polygons = Inr joined
        \<and> columns joined = [''LAT'', ''LON'', ''Masculin'', ''Feminin'', ''index_right'',
             ''region'', ''cercle'', ''commune'', ''idse_new'', ''pop_se'', ''pop_se_ct''])"
proof -
  have d: "distinct (filter (prefix ''index_'') (columns example_polygons))"
    and m: "''index_right'' \<in> set (columns example_polygons)"
    by (simp_all add: example_polygons_def)
  have l: "index_label ''left'' (columns example_points) \<notin> set (columns example_points)"
    and r: "index_label ''right'' (columns example_polygons) \<notin> set (columns example_points)"
    and i: "\<not> (''index'' \<in> set (columns example_points) \<and> ''level_0'' \<in> set (columns example_points))"
      "\<not> (''index'' \<in> set (columns example_polygons) \<and> ''level_0'' \<in> set (columns example_polygons))"
    by (simp_all add: example_polygons_def example_points_def index_label_def)
  have n: "''index'' \<notin> set (columns example_points)" "''index'' \<notin> set (columns example_polygons)"
    by (simp_all add: example_polygons_def example_points_def)
  from safe_sjoin_strips_index_columns [OF d, of box_loc example_points] i l r
  have "\<exists>joined. safe_sjoin box_loc example_points example_polygons = Inr joined
          \<and> columns joined
              = map (lsuffix (filter (\<lambda>c. \<not> prefix ''index_'' c) (columns example_polygons)))
                  (columns example_points)
                @ [index_label ''right'' (columns example_polygons)]
                @ map (rsuffix (columns example_points))
                    (filter (\<lambda>c. \<not> prefix ''index_'' c) (columns example_polygons))"
    by blast
  then have "\<exists>joined. safe_sjoin box_loc example_points example_polygons = Inr joined
        \<and> columns joined = [''LAT'', ''LON'', ''Masculin'', ''Feminin'', ''index_right'',
             ''region'', ''cercle'', ''commune'', ''idse_new'', ''pop_se'', ''pop_se_ct'']"
    by (simp add: example_polygons_def example_points_def index_label_def lsuffix_def rsuffix_def)
  with d m n l r show ?thesis by blast
qed

section \<open>Statistics\<close>

text \<open>
  On a selection with no rows the polygon-based statistics show the notice "No points
  inside drawn polygon" and no totals.
\<close>

theorem empty_subset_counterexample:
  "rows (pts_poly box_loc example_points (10, 10, 11, 11)) = []
   \<and> poly_stats (\<lambda>s. None) (pts_poly box_loc example_points (10, 10, 11, 11)) = Inr Info_no_points
   \<and> poly_stats (\<lambda>s. None) (pts_poly box_loc example_points (10, 10, 11, 11)) \<noteq> Inr (Totals 0 0 0)"
  by (simp add: poly_stats_def pts_poly_def within_geom_def example_points_def pt_def)

text \<open>
  C5, amended.  Over a point subset with no rows neither path raises: the statistics of
  the selected SE are the totals (0, 0, 0), and the polygon-based statistics are the
  notice that no point is inside the drawn polygon.  So it is for the two queries: the
  SE query whose join has no rows, and the polygon query whose latest drawing holds no
  point.
\<close>

theorem empty_subset_statistics:
  assumes "rows pts = []"
  shows "se_stats int_str pts = Inr (Totals 0 0 0)
     \<and> poly_stats parse pts = Inr Info_no_points
     \<and> (safe_sjoin loc points gdf_sel = Inr pts \<and> idse_selected \<noteq> ''No filter'' \<longrightarrow>
          se_query loc int_str points gdf_sel idse_selected = Inr (Totals 0 0 0))
     \<and> (pts = pts_poly loc points poly \<longrightarrow>
          polygon_query loc parse points (Some (earlier @ [\<lparr>geometry = Some poly\<rparr>]))
            = Inr Info_no_points)"
proof -
  have se: "se_stats int_str pts = Inr (Totals 0 0 0)"
    using assms by (rule se_stats_no_rows)
  have poly: "poly_stats parse pts = Inr Info_no_points"
    using assms by (rule poly_stats_no_rows)
  have se_path: "se_query loc int_str points gdf_sel idse_selected = Inr (Totals 0 0 0)"
    if "safe_sjoin loc points gdf_sel = Inr pts" "idse_selected \<noteq> ''No filter''"
    using that se by (simp add: se_query_def andthen_def)
  have poly_path: "polygon_query loc parse points (Some (earlier @ [\<lparr>geometry = Some poly\<rparr>]))
            = Inr Info_no_points"
    if "pts = pts_poly loc points poly"
    using that poly by (simp add: polygon_query_def)
  from se poly se_path poly_path show ?thesis by blast
qed

theorem empty_subset_statistics_witness:
  "rows (pts_poly box_loc example_points (10, 10, 11, 11)) = []
   \<and> se_stats (\<lambda>s. None) (pts_poly box_loc example_points (10, 10, 11, 11)) = Inr (Totals 0 0 0)
   \<and> poly_stats (\<lambda>s. None) (pts_poly box_loc example_points (10, 10, 11, 11)) = Inr Info_no_points
   \<and> polygon_query box_loc (\<lambda>s. None) example_points (Some ([] @ [\<lparr>geometry = Some (10, 10, 11, 11)\<rparr>]))
       = Inr Info_no_points"
  using empty_subset_statistics [of "pts_poly box_loc example_points (10, 10, 11, 11)"
      "\<lambda>s. None" "\<lambda>s. None" box_loc example_points "example_polygons" "''Z1''" "(10, 10, 11, 11)" "[]"]
  by (simp add: pts_poly_def within_geom_def example_points_def pt_def)

text \<open>
  C6.  The two paths do not treat the same inputs as zero.  Without a Masculin column the
  polygon query raises where the SE query counts 0; with a missing value and a text in
  the Masculin column the SE query raises where the polygon query counts 0.
\<close>

theorem aggregation_paths_diverge:
  "polygon_query box_loc parse points_without_masculin (Some [\<lparr>geometry = Some (0, 0, 2, 2)\<rparr>])
     = Inl AttributeError
   \<and> se_query box_loc int_str points_without_masculin (gdf_idse example_polygons ''Z1'') ''Z1''
     = Inr (Totals 0 3 3)
   \<and> se_query box_loc int_str points_with_text (gdf_idse example_polygons ''Z1'') ''Z1''
     = Inl TypeError
   \<and> polygon_query box_loc (\<lambda>s. None) points_with_text (Some [\<lparr>geometry = Some (0, 0, 2, 2)\<rparr>])
     = Inr (Totals 0 3 3)"
proof -
  have cols: "drop_index_columns (columns example_polygons) (columns example_polygons)
      = Inr [''region'', ''cercle'', ''commune'', ''idse_new'', ''pop_se'', ''pop_se_ct'']"
    by (simp add: example_polygons_def)
  have a: "polygon_query box_loc parse points_without_masculin (Some [\<lparr>geometry = Some (0, 0, 2, 2)\<rparr>])
     = Inl AttributeError"
    by (simp add: polygon_query_def poly_stats_def pts_poly_def within_geom_def
        points_without_masculin_def pt_def get_def numeric_total_def andthen_def)
  have b: "se_query box_loc int_str points_without_masculin (gdf_idse example_polygons ''Z1'') ''Z1''
     = Inr (Totals 0 3 3)"
    using cols
    by (simp add: se_query_def safe_sjoin_def gdf_idse_def select_eq_def sjoin_def reset_index_def
        reset_column_def index_label_def join_frame_def joined_row_def intersects_def lsuffix_def rsuffix_def se_stats_def get_or_empty_def get_def series_sum_def
        py_int_def andthen_def points_without_masculin_def example_polygons_def pt_def se_def)
  have c: "se_query box_loc int_str points_with_text (gdf_idse example_polygons ''Z1'') ''Z1''
     = Inl TypeError"
    using cols
    by (simp add: se_query_def safe_sjoin_def gdf_idse_def select_eq_def sjoin_def reset_index_def
        reset_column_def index_label_def join_frame_def joined_row_def intersects_def lsuffix_def rsuffix_def se_stats_def get_or_empty_def get_def series_sum_def
        py_int_def andthen_def points_with_text_def example_polygons_def pt_def se_def)
  have d: "polygon_query box_loc (\<lambda>s. None) points_with_text (Some [\<lparr>geometry = Some (0, 0, 2, 2)\<rparr>])
     = Inr (Totals 0 3 3)"
    by (simp add: polygon_query_def poly_stats_def pts_poly_def within_geom_def points_with_text_def
        pt_def get_def numeric_total_def to_numeric_def fillna0_def float_sum_def andthen_def)
  from a b c d show ?thesis by blast
qed

text \<open>
  C10.  With several drawings the polygon query is the query of the last drawing alone.
  When that drawing has a geometry, the statistics are those of the points in its
  interior: a point that is not there is left out, whatever earlier drawings hold it.
\<close>

theorem latest_drawing_only:
  "polygon_query loc parse points (Some (earlier @ [latest]))
     = polygon_query loc parse points (Some [latest])
   \<and> (\<forall>poly. geometry latest = Some poly \<longrightarrow>
        polygon_query loc parse points (Some (earlier @ [latest]))
          = poly_stats parse (pts_poly loc points poly)
        \<and> (\<forall>p \<in> set (rows points). loc (geom p) poly \<noteq> Interior \<longrightarrow>
              p \<notin> set (rows (pts_poly loc points poly))))"
  by (simp add: polygon_query_def pts_poly_def within_geom_def)

theorem latest_drawing_only_witness:
  "polygon_query box_loc (\<lambda>s. None) example_points
      (Some ([\<lparr>geometry = Some (0, 0, 3, 3)\<rparr>] @ [\<lparr>geometry = Some (4, 4, 6, 6)\<rparr>]))
     = Inr (Totals 7 1 8)
   \<and> polygon_query box_loc (\<lambda>s. None) example_points (Some [\<lparr>geometry = Some (0, 0, 3, 3)\<rparr>])
     = Inr (Totals 5 5 10)
   \<and> box_loc (Flt 1, Flt 1) (4, 4, 6, 6) \<noteq> Interior"
  using latest_drawing_only [of box_loc "\<lambda>s. None" example_points
      "[\<lparr>geometry = Some (0, 0, 3, 3)\<rparr>]" "\<lparr>geometry = Some (4, 4, 6, 6)\<rparr>"]
  by (simp add: polygon_query_def poly_stats_def pts_poly_def within_geom_def example_points_def
      pt_def get_def numeric_total_def to_numeric_def fillna0_def float_sum_def andthen_def)

section \<open>Login\<close>

text \<open>
  C9.  From an unauthenticated session, pressing Login as "admin" with the password
  "admin2025" authenticates the session with role "Admin" and restarts the script; with
  any other password the session is returned as it was, the error is shown and the
  script stops.  From the initial session that leaves \<open>auth_ok\<close> false and the user
  name and role unset.
\<close>

theorem login_admin:
  "\<not> auth_ok s \<Longrightarrow>
     login s ''admin'' ''admin2025'' True
       = Inr (s\<lparr>auth_ok := True, username := Some ''admin'', user_role := Some ''Admin''\<rparr>, Rerun)
     \<and> (pw \<noteq> ''admin2025'' \<longrightarrow>
          login s ''admin'' pw True = Inr (s, Stop True)
          \<and> (s = session_init \<longrightarrow>
               (\<forall>s' out. login s ''admin'' pw True = Inr (s', out) \<longrightarrow>
                  \<not> auth_ok s' \<and> username s' = None \<and> user_role s' = None)))"
  by (simp add: login_def USERS_def session_init_def)

theorem login_admin_witness:
  "\<not> auth_ok (session_init :: unit session)
   \<and> login (session_init :: unit session) ''admin'' ''admin2025'' True
       = Inr (\<lparr>auth_ok = True, username = Some ''admin'', user_role = Some ''Admin'',
               points_gdf = None\<rparr>, Rerun)
   \<and> ''admin'' \<noteq> ''admin2025''
   \<and> login (session_init :: unit session) ''admin'' ''admin'' True = Inr (session_init, Stop True)"
  using login_admin [of "session_init :: unit session" "''admin''"]
  by (simp add: session_init_def)

end
